theory Spec2Isabelle
  imports Main
begin

section \<open>Values of the Go program\<close>

text \<open>
  A Go \<^verbatim>\<open>error\<close> is an interface value; \<^verbatim>\<open>nil\<close> is \<open>None\<close>. The package declares one
  error type, \<^verbatim>\<open>NoAuthorizerError\<close>; every other error comes out of a library
  (go-autorest, zap) and is kept as its message.
\<close>

datatype error = NoAuthorizerError | LibraryError string

definition errorMsg :: string where
  "errorMsg = ''no authorizer available''"

definition Error :: "error \<Rightarrow> string" where
  "Error e = (case e of NoAuthorizerError \<Rightarrow> errorMsg | LibraryError m \<Rightarrow> m)"

text \<open>
  \<^verbatim>\<open>autorest.Authorizer\<close> is an interface: an opaque handle, or \<^verbatim>\<open>nil\<close>.
\<close>

datatype autorest_Authorizer = nil_Authorizer | AuthorizerOf nat

text \<open>
  \<^verbatim>\<open>auth.EnvironmentSettings\<close> and \<^verbatim>\<open>azure.Environment\<close>: only the field the
  package reads.
\<close>

record azure_Environment =
  ResourceManagerEndpoint :: string

record EnvironmentSettings =
  Environment :: azure_Environment

text \<open>
  A zap logger (\<^verbatim>\<open>*zap.Logger\<close>, \<^verbatim>\<open>*zap.SugaredLogger\<close>) is its name and the
  key/value context that \<^verbatim>\<open>With\<close> adds. What it writes is a list of entries.
\<close>

record Logger =
  loggerName :: string
  loggerFields :: "(string \<times> string) list"

datatype Level = InfoLevel | ErrorLevel

type_synonym Entry = "Logger \<times> Level \<times> string"

section \<open>The world outside the package\<close>

text \<open>
  The three credential sources are calls into \<^verbatim>\<open>go-autorest/autorest/azure/auth\<close>;
  they read a file, the CLI's session and the process environment. The library is a
  parameter of the model: each call takes the state \<open>'x\<close> of the outside world and
  returns Go's pair (value, error) with the new state. \<open>invoked\<close> is instrumentation:
  it records every call of a credential source with the scope passed to it.
\<close>

datatype Source = File | CLI | Env

record 'x World =
  outside :: 'x
  invoked :: "(Source \<times> string) list"
  zaplog :: "Entry list"

record 'x auth =
  GetSettingsFromEnvironment :: "'x \<Rightarrow> (EnvironmentSettings \<times> error option) \<times> 'x"
  NewProduction :: "'x \<Rightarrow> (Logger option \<times> error option) \<times> 'x"
  NewAuthorizerFromFileWithResource ::
    "string \<Rightarrow> 'x \<Rightarrow> (autorest_Authorizer \<times> error option) \<times> 'x"
  NewAuthorizerFromCLIWithResource ::
    "string \<Rightarrow> 'x \<Rightarrow> (autorest_Authorizer \<times> error option) \<times> 'x"
  NewAuthorizerFromEnvironmentWithResource ::
    "string \<Rightarrow> 'x \<Rightarrow> (autorest_Authorizer \<times> error option) \<times> 'x"

definition call ::
  "Source \<Rightarrow> (string \<Rightarrow> 'x \<Rightarrow> (autorest_Authorizer \<times> error option) \<times> 'x) \<Rightarrow> string \<Rightarrow>
   'x World \<Rightarrow> (autorest_Authorizer \<times> error option) \<times> 'x World" where
  "call src f resource w =
     (case f resource (outside w) of
        (res, x) \<Rightarrow> (res, w\<lparr>outside := x, invoked := invoked w @ [(src, resource)]\<rparr>))"

definition Named :: "Logger \<Rightarrow> string \<Rightarrow> Logger" where
  "Named l s =
     (if s = [] then l
      else if loggerName l = [] then l\<lparr>loggerName := s\<rparr>
      else l\<lparr>loggerName := loggerName l @ ''.'' @ s\<rparr>)"

definition Sugar_With :: "Logger \<Rightarrow> string \<Rightarrow> string \<Rightarrow> Logger" where
  "Sugar_With l k v = l\<lparr>loggerFields := loggerFields l @ [(k, v)]\<rparr>"

definition Sugar_Info :: "Logger \<Rightarrow> string \<Rightarrow> 'x World \<Rightarrow> 'x World" where
  "Sugar_Info l msg w = w\<lparr>zaplog := zaplog w @ [(l, InfoLevel, msg)]\<rparr>"

definition Sugar_Error :: "Logger \<Rightarrow> error \<Rightarrow> 'x World \<Rightarrow> 'x World" where
  "Sugar_Error l err w = w\<lparr>zaplog := zaplog w @ [(l, ErrorLevel, Error err)]\<rparr>"

section \<open>Config and its constructor\<close>

text \<open>
  The struct \<^verbatim>\<open>Config\<close> of the revision with the cache. Its pointer fields are
  options (\<^verbatim>\<open>nil\<close> is \<open>None\<close>); dereferencing a \<^verbatim>\<open>nil\<close> field panics, and a panic
  is the result \<open>None\<close> of the method.
\<close>

record Config =
  userAgent :: string
  Log :: "Logger option"
  Sugar :: "Logger option"
  settings :: "EnvironmentSettings option"
  armAuthorizer :: "autorest_Authorizer option"

text \<open>
  \<^verbatim>\<open>type Option func(*Config) *Config\<close>: an option takes the Config under construction
  and returns the one to go on with.
\<close>

type_synonym Option = "Config \<Rightarrow> Config"

definition UserAgent :: "string \<Rightarrow> Option" where
  "UserAgent ua = (\<lambda>c. c\<lparr>userAgent := ua\<rparr>)"

definition New ::
  "'x auth \<Rightarrow> Option list \<Rightarrow> 'x World \<Rightarrow> ((Config option \<times> error option) \<times> 'x World) option" where
  "New A opts w =
     (case GetSettingsFromEnvironment A (outside w) of
        ((es, Some err), x1) \<Rightarrow> Some ((None, Some err), w\<lparr>outside := x1\<rparr>)
      | ((es, None), x1) \<Rightarrow>
          (case NewProduction A x1 of
             ((zl, Some err), x2) \<Rightarrow> Some ((None, Some err), w\<lparr>outside := x2\<rparr>)
           | ((zl, None), x2) \<Rightarrow>
               (case zl of
                  None \<Rightarrow> None
                | Some l \<Rightarrow>
                    let log = Named l ''azauth'';
                        c = \<lparr>userAgent = ''azauth'', Log = Some log, Sugar = Some log,
                             settings = Some es, armAuthorizer = None\<rparr>
                    in Some ((Some (fold (\<lambda>opt c. opt c) opts c), None), w\<lparr>outside := x2\<rparr>))))"

section \<open>The Resolver\<close>

definition GetAuthorizerForResource ::
  "'x auth \<Rightarrow> Config \<Rightarrow> string \<Rightarrow> 'x World \<Rightarrow>
   ((autorest_Authorizer \<times> error option) \<times> 'x World) option" where
  "GetAuthorizerForResource A c resource w =
     (case Sugar c of
        None \<Rightarrow> None
      | Some sugar \<Rightarrow>
          let log = Sugar_With sugar ''method'' ''file'' in
          (case call File (NewAuthorizerFromFileWithResource A) resource w of
             ((authorizer, None), w1) \<Rightarrow> Some ((authorizer, None), Sugar_Info log ''ok'' w1)
           | ((authorizer, Some err), w1) \<Rightarrow>
               let w2 = Sugar_Error log err w1;
                   log = Sugar_With sugar ''method'' ''cli'' in
               (case call CLI (NewAuthorizerFromCLIWithResource A) resource w2 of
                  ((authorizer, None), w3) \<Rightarrow> Some ((authorizer, None), Sugar_Info log ''ok'' w3)
                | ((authorizer, Some err), w3) \<Rightarrow>
                    let w4 = Sugar_Error log err w3;
                        log = Sugar_With sugar ''method'' ''env'' in
                    (case call Env (NewAuthorizerFromEnvironmentWithResource A) resource w4 of
                       ((authorizer, None), w5) \<Rightarrow>
                         Some ((authorizer, None), Sugar_Info log ''ok'' w5)
                     | ((authorizer, Some err), w5) \<Rightarrow>
                         Some ((nil_Authorizer, Some NoAuthorizerError),
                               Sugar_Error log err w5)))))"

section \<open>The cache of the management authorizer\<close>

text \<open>
  The methods have the pointer receiver \<^verbatim>\<open>c *Config\<close>. Those of the cache return
  the Config as it is after the call, next to Go's results, so that what a call stores in
  \<^verbatim>\<open>c.armAuthorizer\<close> is part of its result. \<^verbatim>\<open>GetArmAuthorizer\<close> assigns no field.
\<close>

definition GetArmAuthorizer ::
  "'x auth \<Rightarrow> Config \<Rightarrow> 'x World \<Rightarrow>
   ((autorest_Authorizer \<times> error option) \<times> Config \<times> 'x World) option" where
  "GetArmAuthorizer A c w =
     (case armAuthorizer c of
        Some cached \<Rightarrow>
          (case Sugar c of
             None \<Rightarrow> None
           | Some sugar \<Rightarrow>
               Some ((cached, None), c, Sugar_Info sugar ''using cached arm authorizer'' w))
      | None \<Rightarrow>
          (case settings c of
             None \<Rightarrow> None
           | Some es \<Rightarrow>
               (case GetAuthorizerForResource A c (ResourceManagerEndpoint (Environment es)) w of
                  None \<Rightarrow> None
                | Some (res, w1) \<Rightarrow> Some (res, c, w1))))"

definition setArmAuthorizer ::
  "'x auth \<Rightarrow> Config \<Rightarrow> 'x World \<Rightarrow> (error option \<times> Config \<times> 'x World) option" where
  "setArmAuthorizer A c w =
     (case GetArmAuthorizer A c w of
        None \<Rightarrow> None
      | Some ((arm, Some err), c1, w1) \<Rightarrow> Some (Some err, c1, w1)
      | Some ((arm, None), c1, w1) \<Rightarrow> Some (None, c1\<lparr>armAuthorizer := Some arm\<rparr>, w1))"

definition SetAuthorizers ::
  "'x auth \<Rightarrow> Config \<Rightarrow> 'x World \<Rightarrow> (error option \<times> Config \<times> 'x World) option" where
  "SetAuthorizers A c w =
     (case setArmAuthorizer A c w of
        None \<Rightarrow> None
      | Some (Some err, c1, w1) \<Rightarrow> Some (Some err, c1, w1)
      | Some (None, c1, w1) \<Rightarrow> Some (None, c1, w1))"

section \<open>The Client Binder\<close>

text \<open>
  \<^verbatim>\<open>autorest.Client\<close> belongs to go-autorest; the binder writes its field
  \<^verbatim>\<open>Authorizer\<close> and calls its method \<^verbatim>\<open>AddToUserAgent\<close>, which works on the field
  \<^verbatim>\<open>UserAgent\<close>. The record is extensible: the other fields of the client are its
  \<open>more\<close> part. The method is the library's (\<^verbatim>\<open>autorest/client.go\<close> of the version
  \<^verbatim>\<open>go.mod\<close> requires) and is not among the files of this repository. What it does: a
  non-empty \<^verbatim>\<open>extension\<close> is appended to \<^verbatim>\<open>c.UserAgent\<close> after one space and the result
  is \<^verbatim>\<open>nil\<close>; an empty \<^verbatim>\<open>extension\<close> leaves \<^verbatim>\<open>c.UserAgent\<close> as it is and the result is
  the error \<^verbatim>\<open>fmt.Errorf("Extension was empty, User Agent stayed as %s", c.UserAgent)\<close>.
\<close>

record Client =
  client_Authorizer :: autorest_Authorizer
  client_UserAgent :: string

definition AddToUserAgent :: "string \<Rightarrow> 'a Client_scheme \<Rightarrow> error option \<times> 'a Client_scheme" where
  "AddToUserAgent extension c =
     (if extension \<noteq> [] then (None, c\<lparr>client_UserAgent := client_UserAgent c @ '' '' @ extension\<rparr>)
      else (Some (LibraryError
              (''Extension was empty, User Agent stayed as '' @ client_UserAgent c)), c))"

text \<open>
  \<^verbatim>\<open>AuthorizeClientForResource(resource, client, userAgent) (err error)\<close>. The result
  \<^verbatim>\<open>err\<close> is a named result, \<^verbatim>\<open>nil\<close> on entry. The \<^verbatim>\<open>if\<close> statement declares its own
  \<^verbatim>\<open>authorizer, err :=\<close>, in scope in the \<^verbatim>\<open>if\<close> only (\<open>err'\<close> below); the bare
  \<^verbatim>\<open>return\<close> after the \<^verbatim>\<open>if\<close> returns the named result. The client is the pointee of
  \<^verbatim>\<open>client\<close>, returned as it is after the call; the
  parameter \<^verbatim>\<open>userAgent\<close> is \<open>userAgent'\<close>, the field of Config having the name.
\<close>

definition AuthorizeClientForResource ::
  "'x auth \<Rightarrow> Config \<Rightarrow> string \<Rightarrow> 'a Client_scheme \<Rightarrow> string \<Rightarrow> 'x World \<Rightarrow>
   (error option \<times> 'a Client_scheme \<times> 'x World) option" where
  "AuthorizeClientForResource A c resource client userAgent' w =
     (let err = None in
      case GetAuthorizerForResource A c resource w of
        None \<Rightarrow> None
      | Some ((authorizer, err'), w1) \<Rightarrow>
          if err' = None then
            (case AddToUserAgent userAgent' (client\<lparr>client_Authorizer := authorizer\<rparr>) of
               (e, client1) \<Rightarrow> Some (e, client1, w1))
          else Some (err, client, w1))"

section \<open>The file source of the earlier revision\<close>

text \<open>
  \<^verbatim>\<open>src/azauth.go\<close> holds earlier revisions of the package. The one with the loggers
  keeps \<^verbatim>\<open>env *azure.Environment\<close> in its Config and has a resolver for the file source
  alone, \<^verbatim>\<open>GetFileAuthorizerForResource(resource)\<close>.
\<close>

record Config_azauth =
  userAgent_azauth :: string
  env_azauth :: "azure_Environment option"
  Log_azauth :: "Logger option"
  Sugar_azauth :: "Logger option"

definition GetFileAuthorizerForResource ::
  "'x auth \<Rightarrow> Config_azauth \<Rightarrow> string \<Rightarrow> 'x World \<Rightarrow>
   ((autorest_Authorizer \<times> error option) \<times> 'x World) option" where
  "GetFileAuthorizerForResource A c resource w =
     (case Sugar_azauth c of
        None \<Rightarrow> None
      | Some sugar \<Rightarrow>
          let log = Sugar_With sugar ''method'' ''file'' in
          (case env_azauth c of
             None \<Rightarrow> None
           | Some env \<Rightarrow>
               (case call File (NewAuthorizerFromFileWithResource A)
                       (ResourceManagerEndpoint env) w of
                  ((authorizer, None), w1) \<Rightarrow> Some ((authorizer, None), Sugar_Info log ''ok'' w1)
                | ((authorizer, Some err), w1) \<Rightarrow>
                    Some ((nil_Authorizer, Some NoAuthorizerError), Sugar_Error log err w1))))"

section \<open>Concrete surroundings\<close>

text \<open>
  A library whose three credential sources return fixed results and count their calls in
  the outside state, a world in which nothing has happened yet, a Config as \<^verbatim>\<open>New\<close>
  builds it in the public cloud, and a client.
\<close>

definition public_cloud :: EnvironmentSettings where
  "public_cloud = \<lparr>Environment = \<lparr>ResourceManagerEndpoint = ''https://management.azure.com/''\<rparr>\<rparr>"

definition fixed_auth ::
  "(autorest_Authorizer \<times> error option) \<Rightarrow> (autorest_Authorizer \<times> error option) \<Rightarrow>
   (autorest_Authorizer \<times> error option) \<Rightarrow> nat auth" where
  "fixed_auth f c e =
     \<lparr>GetSettingsFromEnvironment = (\<lambda>x. ((public_cloud, None), x)),
      NewProduction = (\<lambda>x. ((Some \<lparr>loggerName = [], loggerFields = []\<rparr>, None), x)),
      NewAuthorizerFromFileWithResource = (\<lambda>r x. (f, Suc x)),
      NewAuthorizerFromCLIWithResource = (\<lambda>r x. (c, Suc x)),
      NewAuthorizerFromEnvironmentWithResource = (\<lambda>r x. (e, Suc x))\<rparr>"

definition no_settings :: "nat auth" where
  "no_settings =
     (fixed_auth (nil_Authorizer, None) (nil_Authorizer, None) (nil_Authorizer, None))
       \<lparr>GetSettingsFromEnvironment :=
          (\<lambda>x. ((public_cloud, Some (LibraryError ''missing settings'')), x))\<rparr>"

definition missing :: "string \<Rightarrow> autorest_Authorizer \<times> error option" where
  "missing m = (nil_Authorizer, Some (LibraryError m))"

definition found :: "nat \<Rightarrow> autorest_Authorizer \<times> error option" where
  "found n = (AuthorizerOf n, None)"

definition quiet :: "nat World" where
  "quiet = \<lparr>outside = 0, invoked = [], zaplog = []\<rparr>"

definition azauth_logger :: Logger where
  "azauth_logger = \<lparr>loggerName = ''azauth'', loggerFields = []\<rparr>"

definition built :: Config where
  "built = \<lparr>userAgent = ''azauth'', Log = Some azauth_logger, Sugar = Some azauth_logger,
             settings = Some public_cloud, armAuthorizer = None\<rparr>"

definition built_azauth :: Config_azauth where
  "built_azauth =
     \<lparr>userAgent_azauth = ''azauth'',
      env_azauth = Some \<lparr>ResourceManagerEndpoint = ''https://management.azure.com/''\<rparr>,
      Log_azauth = Some azauth_logger, Sugar_azauth = Some azauth_logger\<rparr>"

definition fresh_client :: Client where
  "fresh_client = \<lparr>client_Authorizer = nil_Authorizer, client_UserAgent = ''Go/go1.13''\<rparr>"

text \<open>
  The world after the file source alone was asked for \<open>resource\<close> and answered, and the
  world after all three sources were asked and refused.
\<close>

definition after_file :: "string \<Rightarrow> nat World" where
  "after_file resource =
     \<lparr>outside = 1, invoked = [(File, resource)],
      zaplog = [(Sugar_With azauth_logger ''method'' ''file'', InfoLevel, ''ok'')]\<rparr>"

definition after_none :: "string \<Rightarrow> nat World" where
  "after_none resource =
     \<lparr>outside = 3, invoked = [(File, resource), (CLI, resource), (Env, resource)],
      zaplog = [(Sugar_With azauth_logger ''method'' ''file'', ErrorLevel, ''no file''),
                (Sugar_With azauth_logger ''method'' ''cli'', ErrorLevel, ''no session''),
                (Sugar_With azauth_logger ''method'' ''env'', ErrorLevel, ''no variables'')]\<rparr>"

definition all_missing :: "nat auth" where
  "all_missing = fixed_auth (missing ''no file'') (missing ''no session'') (missing ''no variables'')"

definition file_only :: "nat auth" where
  "file_only = fixed_auth (found 1) (missing ''no session'') (missing ''no variables'')"

section \<open>Evaluation\<close>

lemmas fixtures = fixed_auth_def no_settings_def missing_def found_def quiet_def azauth_logger_def
  built_def built_azauth_def fresh_client_def public_cloud_def after_file_def after_none_def
  all_missing_def file_only_def

lemmas unfolded = GetAuthorizerForResource_def call_def Sugar_Info_def Sugar_Error_def
  Sugar_With_def Error_def errorMsg_def

lemma Sugar_built: "Sugar built = Some azauth_logger"
  by (simp add: built_def)

lemma file_only_resolves:
  "GetAuthorizerForResource file_only built resource quiet =
     Some ((AuthorizerOf 1, None), after_file resource)"
  by (simp add: unfolded fixtures)

lemma all_missing_fails:
  "GetAuthorizerForResource all_missing built resource quiet =
     Some ((nil_Authorizer, Some NoAuthorizerError), after_none resource)"
  by (simp add: unfolded fixtures)

section \<open>The Resolver: priority and exhaustion\<close>

text \<open>
  Claim C1. \<^verbatim>\<open>GetAuthorizerForResource\<close> asks the sources in the order File, CLI,
  Environment, and returns the handle of the first one that answers without an error;
  no later source is called: the calls it adds to \<open>invoked\<close> stop at the source that
  answered, and the outside world is as that source left it. When the file source
  answers, its handle is returned whatever the CLI and the environment would answer.
\<close>

theorem GetAuthorizerForResource_priority:
  assumes S: "Sugar c = Some sugar"
    and F: "NewAuthorizerFromFileWithResource A resource (outside w) = ((a1, e1), x1)"
    and C: "NewAuthorizerFromCLIWithResource A resource x1 = ((a2, e2), x2)"
    and E: "NewAuthorizerFromEnvironmentWithResource A resource x2 = ((a3, e3), x3)"
  shows "(e1 = None \<longrightarrow>
           (\<exists>w'. GetAuthorizerForResource A c resource w = Some ((a1, None), w') \<and>
                 invoked w' = invoked w @ [(File, resource)] \<and> outside w' = x1)) \<and>
         (e1 \<noteq> None \<and> e2 = None \<longrightarrow>
           (\<exists>w'. GetAuthorizerForResource A c resource w = Some ((a2, None), w') \<and>
                 invoked w' = invoked w @ [(File, resource), (CLI, resource)] \<and>
                 outside w' = x2)) \<and>
         (e1 \<noteq> None \<and> e2 \<noteq> None \<and> e3 = None \<longrightarrow>
           (\<exists>w'. GetAuthorizerForResource A c resource w = Some ((a3, None), w') \<and>
                 invoked w' = invoked w @ [(File, resource), (CLI, resource), (Env, resource)] \<and>
                 outside w' = x3))"
  using S F C E
  by (auto simp: GetAuthorizerForResource_def call_def Sugar_Info_def Sugar_Error_def)

text \<open>
  File and Environment both answer: the file's handle 1 comes back after one call. Then
  File refuses and CLI answers; then only Environment answers.
\<close>

theorem GetAuthorizerForResource_priority_witness:
  "(\<exists>w'. GetAuthorizerForResource (fixed_auth (found 1) (missing ''no session'') (found 3)) built
           ''https://vault.azure.net'' quiet = Some ((AuthorizerOf 1, None), w') \<and>
         invoked w' = [(File, ''https://vault.azure.net'')] \<and> outside w' = 1) \<and>
   (\<exists>w'. GetAuthorizerForResource (fixed_auth (missing ''no file'') (found 2) (found 3)) built
           ''https://vault.azure.net'' quiet = Some ((AuthorizerOf 2, None), w') \<and>
         invoked w' = [(File, ''https://vault.azure.net''), (CLI, ''https://vault.azure.net'')] \<and>
         outside w' = 2) \<and>
   (\<exists>w'. GetAuthorizerForResource
           (fixed_auth (missing ''no file'') (missing ''no session'') (found 3))
           built ''https://vault.azure.net'' quiet = Some ((AuthorizerOf 3, None), w') \<and>
         invoked w' = [(File, ''https://vault.azure.net''), (CLI, ''https://vault.azure.net''),
                       (Env, ''https://vault.azure.net'')] \<and>
         outside w' = 3)"
proof -
  let ?r = "''https://vault.azure.net''"
  let ?A1 = "fixed_auth (found 1) (missing ''no session'') (found 3)"
  let ?A2 = "fixed_auth (missing ''no file'') (found 2) (found 3)"
  let ?A3 = "fixed_auth (missing ''no file'') (missing ''no session'') (found 3)"
  have 1: "NewAuthorizerFromFileWithResource ?A1 ?r (outside quiet) = ((AuthorizerOf 1, None), 1)"
    "NewAuthorizerFromCLIWithResource ?A1 ?r 1 =
       ((nil_Authorizer, Some (LibraryError ''no session'')), 2)"
    "NewAuthorizerFromEnvironmentWithResource ?A1 ?r 2 = ((AuthorizerOf 3, None), 3)"
    by (simp_all add: fixtures)
  have 2: "NewAuthorizerFromFileWithResource ?A2 ?r (outside quiet) =
       ((nil_Authorizer, Some (LibraryError ''no file'')), 1)"
    "NewAuthorizerFromCLIWithResource ?A2 ?r 1 = ((AuthorizerOf 2, None), 2)"
    "NewAuthorizerFromEnvironmentWithResource ?A2 ?r 2 = ((AuthorizerOf 3, None), 3)"
    by (simp_all add: fixtures)
  have 3: "NewAuthorizerFromFileWithResource ?A3 ?r (outside quiet) =
       ((nil_Authorizer, Some (LibraryError ''no file'')), 1)"
    "NewAuthorizerFromCLIWithResource ?A3 ?r 1 =
       ((nil_Authorizer, Some (LibraryError ''no session'')), 2)"
    "NewAuthorizerFromEnvironmentWithResource ?A3 ?r 2 = ((AuthorizerOf 3, None), 3)"
    by (simp_all add: fixtures)
  have q: "invoked quiet = []" by (simp add: quiet_def)
  show ?thesis
    using GetAuthorizerForResource_priority [OF Sugar_built 1]
      GetAuthorizerForResource_priority [OF Sugar_built 2]
      GetAuthorizerForResource_priority [OF Sugar_built 3]
    by (simp add: q)
qed

text \<open>
  Claim C2. When all three sources return an error, \<^verbatim>\<open>GetAuthorizerForResource\<close>
  returns \<^verbatim>\<open>nil\<close> and \<^verbatim>\<open>NoAuthorizerError\<close>, whose message is the constant
  \<^verbatim>\<open>"no authorizer available"\<close> whatever the three errors were; these are written to the
  log only. Each source was called exactly once, in order.
\<close>

theorem GetAuthorizerForResource_exhausted:
  assumes S: "Sugar c = Some sugar"
    and F: "NewAuthorizerFromFileWithResource A resource (outside w) = ((a1, Some err1), x1)"
    and C: "NewAuthorizerFromCLIWithResource A resource x1 = ((a2, Some err2), x2)"
    and E: "NewAuthorizerFromEnvironmentWithResource A resource x2 = ((a3, Some err3), x3)"
  shows "GetAuthorizerForResource A c resource w =
           Some ((nil_Authorizer, Some NoAuthorizerError),
                 \<lparr>outside = x3,
                  invoked = invoked w @ [(File, resource), (CLI, resource), (Env, resource)],
                  zaplog = zaplog w @
                    [(Sugar_With sugar ''method'' ''file'', ErrorLevel, Error err1),
                     (Sugar_With sugar ''method'' ''cli'', ErrorLevel, Error err2),
                     (Sugar_With sugar ''method'' ''env'', ErrorLevel, Error err3)]\<rparr>) \<and>
         Error NoAuthorizerError = ''no authorizer available''"
  using S F C E
  by (simp add: GetAuthorizerForResource_def call_def Sugar_Info_def Sugar_Error_def Error_def
      errorMsg_def)

theorem GetAuthorizerForResource_exhausted_witness:
  "GetAuthorizerForResource all_missing built ''https://vault.azure.net'' quiet =
     Some ((nil_Authorizer, Some NoAuthorizerError), after_none ''https://vault.azure.net'') \<and>
   Error NoAuthorizerError = ''no authorizer available''"
proof -
  let ?r = "''https://vault.azure.net''"
  have F: "NewAuthorizerFromFileWithResource all_missing ?r (outside quiet) =
      ((nil_Authorizer, Some (LibraryError ''no file'')), 1)"
    and C: "NewAuthorizerFromCLIWithResource all_missing ?r 1 =
      ((nil_Authorizer, Some (LibraryError ''no session'')), 2)"
    and E: "NewAuthorizerFromEnvironmentWithResource all_missing ?r 2 =
      ((nil_Authorizer, Some (LibraryError ''no variables'')), 3)"
    by (simp_all add: fixtures)
  show ?thesis
    using GetAuthorizerForResource_exhausted [OF Sugar_built F C E]
    by (simp add: quiet_def after_none_def Error_def)
qed

section \<open>The Client Binder\<close>

lemma AuthorizeClientForResource_failure:
  "GetAuthorizerForResource A c resource w = Some ((a, Some err), w1) \<Longrightarrow>
   AuthorizeClientForResource A c resource client ua w = Some (None, client, w1)"
  by (simp add: AuthorizeClientForResource_def)

lemma AuthorizeClientForResource_success:
  "GetAuthorizerForResource A c resource w = Some ((a, None), w1) \<Longrightarrow>
   AuthorizeClientForResource A c resource client ua w =
     Some (fst (AddToUserAgent ua (client\<lparr>client_Authorizer := a\<rparr>)),
           snd (AddToUserAgent ua (client\<lparr>client_Authorizer := a\<rparr>)), w1)"
  by (simp add: AuthorizeClientForResource_def split: prod.splits)

text \<open>
  Claim C3 says that \<^verbatim>\<open>AuthorizeClientForResource\<close> returns the Resolver's failure to
  its caller. The method does not: with all three sources refusing, the Resolver returns
  \<^verbatim>\<open>NoAuthorizerError\<close> and the binder returns \<^verbatim>\<open>nil\<close>. The error of the Resolver is
  held by the \<^verbatim>\<open>err\<close> that the \<^verbatim>\<open>if\<close> statement declares, and the bare \<^verbatim>\<open>return\<close>
  returns the named result, which nothing has assigned
  (\<open>AuthorizeClientForResource_failure\<close> is the general fact).
\<close>

theorem AuthorizeClientForResource_drops_failure:
  "map_option (snd \<circ> fst)
     (GetAuthorizerForResource all_missing built ''https://vault.azure.net'' quiet) =
     Some (Some NoAuthorizerError) \<and>
   map_option fst
     (AuthorizeClientForResource all_missing built ''https://vault.azure.net'' fresh_client
        ''my-tool'' quiet) = Some None"
  by (simp add: AuthorizeClientForResource_def all_missing_fails)

text \<open>
  Claim C5, amended. For every client, scope and non-empty user-agent string, the binder is
  all-or-nothing on the client: when the Resolver succeeds, the credential slot holds the
  resolved handle and a space and the user-agent string are appended to the client's
  identification string. When the Resolver fails, the client is as it was, for every
  user-agent string, the empty one included. With the empty user-agent string and a Resolver
  that succeeds, for every client and scope, the credential slot holds the resolved handle,
  the identification string is unchanged, and the call returns the error of
  \<^verbatim>\<open>AddToUserAgent\<close>.
\<close>

theorem AuthorizeClientForResource_all_or_nothing:
  "(ua \<noteq> [] \<and> GetAuthorizerForResource A c resource w = Some ((a, None), w1) \<longrightarrow>
      AuthorizeClientForResource A c resource client ua w =
        Some (None, client\<lparr>client_Authorizer := a,
                           client_UserAgent := client_UserAgent client @ '' '' @ ua\<rparr>, w1)) \<and>
   (GetAuthorizerForResource A c resource w = Some ((a, Some err), w1) \<longrightarrow>
      (\<exists>e. AuthorizeClientForResource A c resource client ua w = Some (e, client, w1))) \<and>
   (GetAuthorizerForResource A c resource w = Some ((a, None), w1) \<longrightarrow>
      AuthorizeClientForResource A c resource client [] w =
        Some (Some (LibraryError
                (''Extension was empty, User Agent stayed as '' @ client_UserAgent client)),
              client\<lparr>client_Authorizer := a\<rparr>, w1))"
  by (simp add: AuthorizeClientForResource_def AddToUserAgent_def)

text \<open>
  A source that answers and the string \<^verbatim>\<open>my-tool\<close>: both writes. No source answers: the
  client is untouched, with \<^verbatim>\<open>my-tool\<close> and with the empty string. A source that answers
  and the empty string: the slot alone is written.
\<close>

theorem AuthorizeClientForResource_all_or_nothing_witness:
  "''my-tool'' \<noteq> [] \<and>
   AuthorizeClientForResource file_only built ''https://vault.azure.net'' fresh_client ''my-tool''
     quiet =
     Some (None, \<lparr>client_Authorizer = AuthorizerOf 1, client_UserAgent = ''Go/go1.13 my-tool''\<rparr>,
           after_file ''https://vault.azure.net'') \<and>
   (\<exists>e. AuthorizeClientForResource all_missing built ''https://vault.azure.net'' fresh_client
          ''my-tool'' quiet = Some (e, fresh_client, after_none ''https://vault.azure.net'')) \<and>
   (\<exists>e. AuthorizeClientForResource all_missing built ''https://vault.azure.net'' fresh_client
          [] quiet = Some (e, fresh_client, after_none ''https://vault.azure.net'')) \<and>
   AuthorizeClientForResource file_only built ''https://management.azure.com/'' fresh_client []
     quiet =
     Some (Some (LibraryError ''Extension was empty, User Agent stayed as Go/go1.13''),
           \<lparr>client_Authorizer = AuthorizerOf 1, client_UserAgent = ''Go/go1.13''\<rparr>,
           after_file ''https://management.azure.com/'')"
proof -
  show ?thesis
    using AuthorizeClientForResource_all_or_nothing [where A = file_only and c = built
        and resource = "''https://vault.azure.net''" and w = quiet and a = "AuthorizerOf 1"
        and ?w1.0 = "after_file ''https://vault.azure.net''" and client = fresh_client
        and ua = "''my-tool''"]
      AuthorizeClientForResource_all_or_nothing [where A = all_missing and c = built
        and resource = "''https://vault.azure.net''" and w = quiet and a = nil_Authorizer
        and ?w1.0 = "after_none ''https://vault.azure.net''" and err = NoAuthorizerError
        and client = fresh_client and ua = "''my-tool''"]
      AuthorizeClientForResource_all_or_nothing [where A = all_missing and c = built
        and resource = "''https://vault.azure.net''" and w = quiet and a = nil_Authorizer
        and ?w1.0 = "after_none ''https://vault.azure.net''" and err = NoAuthorizerError
        and client = fresh_client and ua = "[]"]
      AuthorizeClientForResource_all_or_nothing [where A = file_only and c = built
        and resource = "''https://management.azure.com/''" and w = quiet and a = "AuthorizerOf 1"
        and ?w1.0 = "after_file ''https://management.azure.com/''" and client = fresh_client
        and ua = "[]"]
    by (simp add: file_only_resolves all_missing_fails fresh_client_def)
qed

text \<open>
  Claim C5 as stated, for every user-agent string, fails at the empty one. With the empty
  user-agent string and a source that answers, the binder has already written the
  credential slot when \<^verbatim>\<open>AddToUserAgent\<close> refuses the empty extension: the call returns
  the library's error, the slot holds the new handle (it held \<^verbatim>\<open>nil\<close> before) and the
  identification string is the one the client had. One field of two is written.
\<close>

theorem AuthorizeClientForResource_empty_userAgent:
  "AuthorizeClientForResource file_only built ''https://vault.azure.net'' fresh_client [] quiet =
     Some (Some (LibraryError ''Extension was empty, User Agent stayed as Go/go1.13''),
           \<lparr>client_Authorizer = AuthorizerOf 1, client_UserAgent = ''Go/go1.13''\<rparr>,
           after_file ''https://vault.azure.net'') \<and>
   client_Authorizer fresh_client = nil_Authorizer \<and>
   client_UserAgent fresh_client = ''Go/go1.13''"
  by (simp add: AuthorizeClientForResource_def file_only_resolves AddToUserAgent_def
      fresh_client_def)

text \<open>
  Claim C8. When the Resolver succeeds for a scope, the handle it returned is the one in the
  client's credential slot after \<^verbatim>\<open>AuthorizeClientForResource\<close>, for every user-agent
  string.
\<close>

theorem AuthorizeClientForResource_round_trip:
  assumes "GetAuthorizerForResource A c resource w = Some ((a, None), w1)"
  shows "\<exists>e client1. AuthorizeClientForResource A c resource client ua w = Some (e, client1, w1) \<and>
           client_Authorizer client1 = a"
  using assms by (simp add: AuthorizeClientForResource_def AddToUserAgent_def)

theorem AuthorizeClientForResource_round_trip_witness:
  "GetAuthorizerForResource file_only built ''https://vault.azure.net'' quiet =
     Some ((AuthorizerOf 1, None), after_file ''https://vault.azure.net'') \<and>
   (\<exists>e client1.
      AuthorizeClientForResource file_only built ''https://vault.azure.net'' fresh_client
        ''my-tool'' quiet = Some (e, client1, after_file ''https://vault.azure.net'') \<and>
      client_Authorizer client1 = AuthorizerOf 1)"
  using AuthorizeClientForResource_round_trip [OF file_only_resolves,
      where resource = "''https://vault.azure.net''" and client = fresh_client and ua = "''my-tool''"]
  by (simp add: file_only_resolves)

section \<open>The cache\<close>

text \<open>
  Claim C4, amended. With an empty cache slot \<^verbatim>\<open>GetArmAuthorizer\<close> calls the Resolver for
  the management endpoint and returns what it returns, storing nothing: the Config is
  unchanged. The slot is written by \<^verbatim>\<open>setArmAuthorizer\<close> (called by \<^verbatim>\<open>SetAuthorizers\<close>),
  which stores the handle of a successful resolution and stores nothing on a failure;
  after it, \<^verbatim>\<open>GetArmAuthorizer\<close> returns the stored handle and only writes a log line.
\<close>

theorem GetArmAuthorizer_miss:
  assumes "armAuthorizer c = None" and "settings c = Some es" and "Sugar c = Some sugar"
    and "GetAuthorizerForResource A c (ResourceManagerEndpoint (Environment es)) w =
           Some ((a, e), w1)"
  shows "GetArmAuthorizer A c w = Some ((a, e), c, w1) \<and>
         (e = None \<longrightarrow>
            setArmAuthorizer A c w = Some (None, c\<lparr>armAuthorizer := Some a\<rparr>, w1) \<and>
            SetAuthorizers A c w = Some (None, c\<lparr>armAuthorizer := Some a\<rparr>, w1) \<and>
            GetArmAuthorizer A (c\<lparr>armAuthorizer := Some a\<rparr>) w2 =
              Some ((a, None), c\<lparr>armAuthorizer := Some a\<rparr>,
                    w2\<lparr>zaplog := zaplog w2 @
                      [(sugar, InfoLevel, ''using cached arm authorizer'')]\<rparr>)) \<and>
         (e \<noteq> None \<longrightarrow>
            setArmAuthorizer A c w = Some (e, c, w1) \<and> SetAuthorizers A c w = Some (e, c, w1))"
  using assms
  by (auto simp: GetArmAuthorizer_def setArmAuthorizer_def SetAuthorizers_def Sugar_Info_def)

theorem GetArmAuthorizer_miss_witness:
  "GetArmAuthorizer file_only built quiet =
     Some ((AuthorizerOf 1, None), built, after_file ''https://management.azure.com/'') \<and>
   SetAuthorizers file_only built quiet =
     Some (None, built\<lparr>armAuthorizer := Some (AuthorizerOf 1)\<rparr>,
           after_file ''https://management.azure.com/'') \<and>
   map_option (invoked \<circ> snd \<circ> snd)
     (GetArmAuthorizer file_only (built\<lparr>armAuthorizer := Some (AuthorizerOf 1)\<rparr>)
        (after_file ''https://management.azure.com/'')) =
     Some [(File, ''https://management.azure.com/'')] \<and>
   SetAuthorizers all_missing built quiet =
     Some (Some NoAuthorizerError, built, after_none ''https://management.azure.com/'')"
proof -
  have 1: "armAuthorizer built = None" and 2: "settings built = Some public_cloud"
    by (simp_all add: built_def)
  have ep: "ResourceManagerEndpoint (Environment public_cloud) = ''https://management.azure.com/''"
    by (simp add: public_cloud_def)
  have ok: "GetAuthorizerForResource file_only built
      (ResourceManagerEndpoint (Environment public_cloud)) quiet =
      Some ((AuthorizerOf 1, None), after_file ''https://management.azure.com/'')"
    by (simp add: ep file_only_resolves)
  have no: "GetAuthorizerForResource all_missing built
      (ResourceManagerEndpoint (Environment public_cloud)) quiet =
      Some ((nil_Authorizer, Some NoAuthorizerError), after_none ''https://management.azure.com/'')"
    by (simp add: ep all_missing_fails)
  show ?thesis
    using GetArmAuthorizer_miss [OF 1 2 Sugar_built ok,
        where ?w2.0 = "after_file ''https://management.azure.com/''"]
      GetArmAuthorizer_miss [OF 1 2 Sugar_built no]
    by (simp add: after_file_def)
qed

text \<open>
  Claim C4 as stated, that \<^verbatim>\<open>GetArmAuthorizer\<close> itself fills the slot, fails here.
  A first call of \<^verbatim>\<open>GetArmAuthorizer\<close> on the empty cache succeeds with the file's handle and
  leaves the slot empty; the second call asks the file source again.
\<close>

theorem GetArmAuthorizer_stores_nothing:
  "GetArmAuthorizer file_only built quiet =
     Some ((AuthorizerOf 1, None), built, after_file ''https://management.azure.com/'') \<and>
   armAuthorizer built = None \<and>
   map_option (invoked \<circ> snd \<circ> snd)
     (GetArmAuthorizer file_only built (after_file ''https://management.azure.com/'')) =
     Some [(File, ''https://management.azure.com/''), (File, ''https://management.azure.com/'')]"
  by (simp add: GetArmAuthorizer_def unfolded fixtures)

text \<open>
  Claim C6. When the cache slot holds a handle, \<^verbatim>\<open>GetArmAuthorizer\<close> returns that handle
  and a \<^verbatim>\<open>nil\<close> error, the pair a successful resolution returns; no source is called and
  the outside world is untouched: the one effect is the log line.
\<close>

theorem GetArmAuthorizer_hit:
  assumes "armAuthorizer c = Some a" and "Sugar c = Some sugar"
  shows "GetArmAuthorizer A c w =
           Some ((a, None), c,
                 w\<lparr>zaplog := zaplog w @ [(sugar, InfoLevel, ''using cached arm authorizer'')]\<rparr>)"
  using assms by (simp add: GetArmAuthorizer_def Sugar_Info_def)

theorem GetArmAuthorizer_hit_witness:
  "GetArmAuthorizer all_missing (built\<lparr>armAuthorizer := Some (AuthorizerOf 1)\<rparr>) quiet =
     Some ((AuthorizerOf 1, None), built\<lparr>armAuthorizer := Some (AuthorizerOf 1)\<rparr>,
           \<lparr>outside = 0, invoked = [],
            zaplog = [(azauth_logger, InfoLevel, ''using cached arm authorizer'')]\<rparr>)"
proof -
  have 1: "armAuthorizer (built\<lparr>armAuthorizer := Some (AuthorizerOf 1)\<rparr>) = Some (AuthorizerOf 1)"
    and 2: "Sugar (built\<lparr>armAuthorizer := Some (AuthorizerOf 1)\<rparr>) = Some azauth_logger"
    by (simp_all add: built_def)
  show ?thesis
    using GetArmAuthorizer_hit [OF 1 2, where A = all_missing and w = quiet] by (simp add: quiet_def)
qed

section \<open>The scope given to the sources\<close>

text \<open>
  The Resolver of the revision with the cache passes its \<open>resource\<close> to every source it
  calls: the calls it adds are File, CLI, Environment up to the one that answered, each with
  the caller's scope.
\<close>

lemma GetAuthorizerForResource_scope:
  assumes "GetAuthorizerForResource A c resource w = Some (res, w1)"
  shows "\<exists>n\<in>{1, 2, 3}. invoked w1 = invoked w @ map (\<lambda>s. (s, resource)) (take n [File, CLI, Env])"
  using assms
  by (auto simp: GetAuthorizerForResource_def call_def Sugar_Info_def Sugar_Error_def Let_def
      split: prod.splits option.splits)

text \<open>
  Claim C7 says that the file source is always given the caller's scope, never the management
  endpoint in its place. \<^verbatim>\<open>GetFileAuthorizerForResource\<close> of \<^verbatim>\<open>src/azauth.go\<close> does not
  read its parameter: asked for \<^verbatim>\<open>https://vault.azure.net\<close> in the public cloud, it calls
  the file source with \<^verbatim>\<open>https://management.azure.com/\<close>.
\<close>

theorem GetFileAuthorizerForResource_ignores_resource:
  "map_option (invoked \<circ> snd)
     (GetFileAuthorizerForResource file_only built_azauth ''https://vault.azure.net'' quiet) =
   Some [(File, ''https://management.azure.com/'')]"
  by (simp add: GetFileAuthorizerForResource_def unfolded fixtures)

section \<open>Construction\<close>

lemma fold_UserAgent:
  "fold (\<lambda>opt c. opt c) (map UserAgent uas) c = (if uas = [] then c else c\<lparr>userAgent := last uas\<rparr>)"
  by (induction uas arbitrary: c) (auto simp: UserAgent_def)

lemma New_fixed_auth:
  "New (fixed_auth f c e) (map UserAgent uas) quiet =
     Some ((Some (if uas = [] then built else built\<lparr>userAgent := last uas\<rparr>), None), quiet)"
  by (simp add: New_def fold_UserAgent Named_def Let_def fixtures)

text \<open>
  Claim C9. When \<^verbatim>\<open>auth.GetSettingsFromEnvironment\<close> returns an error, \<^verbatim>\<open>New\<close> returns
  \<^verbatim>\<open>nil\<close> and that error, whatever the options; and a Config that \<^verbatim>\<open>New\<close> returns, built
  with \<^verbatim>\<open>UserAgent\<close> options, holds the settings that were loaded without error.
\<close>

theorem New_settings_unavailable:
  "(GetSettingsFromEnvironment A (outside w) = ((es, Some err), x) \<longrightarrow>
      New A opts w = Some ((None, Some err), w\<lparr>outside := x\<rparr>)) \<and>
   (New A (map UserAgent uas) w = Some ((Some c, e), w1) \<longrightarrow>
      (\<exists>es1 x1. GetSettingsFromEnvironment A (outside w) = ((es1, None), x1) \<and>
                settings c = Some es1))"
  by (auto simp: New_def fold_UserAgent Let_def split: prod.splits option.splits)

theorem New_settings_unavailable_witness:
  "GetSettingsFromEnvironment no_settings (outside quiet) =
     ((public_cloud, Some (LibraryError ''missing settings'')), 0) \<and>
   New no_settings [UserAgent ''my-tool''] quiet =
     Some ((None, Some (LibraryError ''missing settings'')), quiet) \<and>
   New file_only (map UserAgent [''my-tool'']) quiet =
     Some ((Some (built\<lparr>userAgent := ''my-tool''\<rparr>), None), quiet) \<and>
   settings (built\<lparr>userAgent := ''my-tool''\<rparr>) = Some public_cloud"
proof -
  have g: "GetSettingsFromEnvironment no_settings (outside quiet) =
      ((public_cloud, Some (LibraryError ''missing settings'')), 0)"
    by (simp add: fixtures)
  have f: "GetSettingsFromEnvironment file_only (outside quiet) = ((public_cloud, None), 0)"
    by (simp add: fixtures)
  have n: "New file_only (map UserAgent [''my-tool'']) quiet =
      Some ((Some (built\<lparr>userAgent := ''my-tool''\<rparr>), None), quiet)"
    using New_fixed_auth [where uas = "[''my-tool'']"] by (simp add: file_only_def)
  have q: "quiet\<lparr>outside := 0\<rparr> = quiet" by (simp add: quiet_def)
  show ?thesis
    using New_settings_unavailable [where A = no_settings and w = quiet and es = public_cloud
        and err = "LibraryError ''missing settings''" and x = 0 and opts = "[UserAgent ''my-tool'']"
        and uas = "[]" and c = built and e = None and ?w1.0 = quiet]
      New_settings_unavailable [where A = file_only and w = quiet and es = public_cloud
        and err = "LibraryError ''missing settings''" and x = 0 and opts = "[]"
        and uas = "[''my-tool'']" and c = "built\<lparr>userAgent := ''my-tool''\<rparr>" and e = None
        and ?w1.0 = quiet] n
    by (simp add: g f q)
qed

text \<open>
  Claim C10, amended. Without options \<^verbatim>\<open>New\<close> builds a Config whose \<^verbatim>\<open>userAgent\<close> is
  \<^verbatim>\<open>"azauth"\<close>; the options are applied in the order given after the defaults are set, so
  with several \<^verbatim>\<open>UserAgent\<close> options the field has the string of the last one. The binder
  \<^verbatim>\<open>AuthorizeClientForResource(resource, client, userAgent)\<close> does not read the field: its
  result is the same for every value of it, and what it appends is its own argument.
\<close>

theorem New_userAgent:
  "(New A [] w = Some ((Some c, e), w1) \<longrightarrow> userAgent c = ''azauth'') \<and>
   (uas \<noteq> [] \<and> New A (map UserAgent uas) w = Some ((Some c, e), w1) \<longrightarrow> userAgent c = last uas) \<and>
   AuthorizeClientForResource A (c0\<lparr>userAgent := u\<rparr>) resource client ua w =
     AuthorizeClientForResource A c0 resource client ua w"
  by (auto simp: New_def fold_UserAgent Let_def AuthorizeClientForResource_def
      GetAuthorizerForResource_def split: prod.splits option.splits)

theorem New_userAgent_witness:
  "New file_only [] quiet = Some ((Some built, None), quiet) \<and>
   userAgent built = ''azauth'' \<and>
   [''first'', ''last''] \<noteq> [] \<and>
   New file_only (map UserAgent [''first'', ''last'']) quiet =
     Some ((Some (built\<lparr>userAgent := ''last''\<rparr>), None), quiet) \<and>
   userAgent (built\<lparr>userAgent := ''last''\<rparr>) = ''last'' \<and>
   AuthorizeClientForResource file_only (built\<lparr>userAgent := ''last''\<rparr>) ''https://vault.azure.net''
     fresh_client ''my-tool'' quiet =
   AuthorizeClientForResource file_only built ''https://vault.azure.net'' fresh_client ''my-tool''
     quiet"
proof -
  have 0: "New file_only [] quiet = Some ((Some built, None), quiet)"
    using New_fixed_auth [where uas = "[]"] by (simp add: file_only_def)
  have 2: "New file_only (map UserAgent [''first'', ''last'']) quiet =
      Some ((Some (built\<lparr>userAgent := ''last''\<rparr>), None), quiet)"
    using New_fixed_auth [where uas = "[''first'', ''last'']"] by (simp add: file_only_def)
  show ?thesis
    using 0 2 New_userAgent [where A = file_only and w = quiet and c = built and e = None
        and ?w1.0 = quiet and uas = "[''first'', ''last'']" and ?c0.0 = built and u = "''last''"
        and resource = "''https://vault.azure.net''" and client = fresh_client
        and ua = "''my-tool''"]
      New_userAgent [where A = file_only and w = quiet and c = "built\<lparr>userAgent := ''last''\<rparr>"
        and e = None and ?w1.0 = quiet and uas = "[''first'', ''last'']" and ?c0.0 = built
        and u = "''last''" and resource = "''https://vault.azure.net''" and client = fresh_client
        and ua = "''my-tool''"]
    by simp
qed

text \<open>
  Claim C10 as stated, that the last option determines the string the binder uses, fails
  here. Built with the options \<^verbatim>\<open>UserAgent("first"), UserAgent("last")\<close> the Config holds
  \<^verbatim>\<open>"last"\<close>; bound with the argument \<^verbatim>\<open>"my-tool"\<close>, the client's identification string ends
  in \<^verbatim>\<open>my-tool\<close>, and \<^verbatim>\<open>last\<close> is nowhere in it.
\<close>

theorem AuthorizeClientForResource_ignores_Config_userAgent:
  "New file_only [UserAgent ''first'', UserAgent ''last''] quiet =
     Some ((Some (built\<lparr>userAgent := ''last''\<rparr>), None), quiet) \<and>
   map_option (client_UserAgent \<circ> fst \<circ> snd)
     (AuthorizeClientForResource file_only (built\<lparr>userAgent := ''last''\<rparr>)
        ''https://vault.azure.net'' fresh_client ''my-tool'' quiet) =
     Some ''Go/go1.13 my-tool''"
  by (simp add: New_def AuthorizeClientForResource_def AddToUserAgent_def UserAgent_def Named_def
      Let_def unfolded fixtures)

end
